theory Spec2Isabelle
  imports
    Main
    "HOL-Library.Sublist"
    "HOL-Library.Char_ord"
    "HOL-Library.List_Lexorder"
    "HOL-Library.Option_ord"
    "HOL-Library.Multiset"
begin

section \<open>The authority service of Lemur (lemur/authorities/service.py)\<close>

text \<open>
  The service functions \<open>update\<close>, \<open>create\<close>, \<open>get_all\<close>, \<open>get\<close>, \<open>get_by_name\<close>,
  \<open>get_authority_role\<close> and \<open>render\<close> are embedded from the source. They read the
  request-scoped user \<open>g.current_user\<close> and call into \<open>lemur.database\<close>,
  \<open>lemur.roles.service\<close>, \<open>lemur.notifications.service\<close>, the plugin registry and the
  model classes. The persistent store and the current user are an explicit state that every
  operation takes and returns; a raised exception is the \<open>Inl\<close> branch of the result, and the
  state returned with it is the state at the moment of the raise (the source has no rollback).
\<close>

subsection \<open>Python values\<close>

datatype error =
    KeyError string
  | IndexError
  | NotFoundError
  | UnknownColumn string
  | UnknownPlugin
  | ProvisioningError
  | ValidationError
  | DuplicateRoleError
  | DuplicateNameError

text \<open>\<open>"{0}".format(v)\<close>: the text of a string, and \<open>None\<close> for Python's None.\<close>

definition py_format :: "string option \<Rightarrow> string" where
  "py_format v = (case v of None \<Rightarrow> ''None'' | Some t \<Rightarrow> t)"

text \<open>\<open>str.split(sep)\<close> for a one-character separator: never the empty list.\<close>

fun py_split :: "char \<Rightarrow> string \<Rightarrow> string list" where
  "py_split sep [] = [[]]"
| "py_split sep (c # cs) =
     (if c = sep then [] # py_split sep cs
      else (case py_split sep cs of
              [] \<Rightarrow> [[c]]
            | t # ts \<Rightarrow> (c # t) # ts))"

text \<open>\<open>xs[i]\<close> for a non-negative index: IndexError out of range.\<close>

definition py_index :: "'a list \<Rightarrow> nat \<Rightarrow> error + 'a" where
  "py_index xs i = (if i < length xs then Inr (xs ! i) else Inl IndexError)"

text \<open>
  Truth value of an optional boolean (\<open>if active:\<close>) and of an optional list
  (\<open>if roles:\<close>): None, False and the empty list are falsy.
\<close>

definition truthy_bool :: "bool option \<Rightarrow> bool" where
  "truthy_bool v = (case v of None \<Rightarrow> False | Some b \<Rightarrow> b)"

definition truthy_list :: "'a list option \<Rightarrow> bool" where
  "truthy_list v = (case v of None \<Rightarrow> False | Some xs \<Rightarrow> xs \<noteq> [])"

subsection \<open>Data model\<close>

text \<open>
  The model classes Role, Certificate and Authority and the user class are declared outside
  this module; the records carry the attributes that the service reads and writes. An
  identifier is None until the object has been persisted.
\<close>

record role =
  role_id :: nat
  role_name :: string
  role_username :: "string option"
  role_password :: "string option"
  role_description :: string

record role_descr =
  descr_name :: string
  descr_username :: "string option"
  descr_password :: "string option"

record notification =
  notif_category :: string
  notif_recipient :: "string option"
  notif_interval :: nat

record certificate =
  cert_id :: "nat option"
  cert_body :: string
  cert_chain :: string
  cert_owner :: "string option"
  cert_description :: "string option"
  cert_user :: "string option"
  cert_notifications :: "notification list"

record authority =
  authority_id :: "nat option"
  authority_name :: "string option"
  authority_owner :: "string option"
  authority_plugin_name :: string
  authority_body :: string
  authority_chain :: string
  authority_description :: "string option"
  authority_active :: "bool option"
  authority_roles :: "role list"

record user =
  user_email :: string
  is_admin :: bool
  user_roles :: "role list"
  user_authorities :: "authority list"

text \<open>
  The journal lists, in program order, the constructor calls of \<open>create\<close> and every
  persistence operation.
\<close>

datatype event =
    RolePersisted nat
  | CertificateConstructed
  | AuthorityConstructed
  | CertificatePersisted nat
  | AuthorityPersisted nat
  | AuthorityUpdated nat

record state =
  db_authorities :: "authority list"
  db_roles :: "role list"
  db_certificates :: "certificate list"
  current_user :: user
  journal :: "event list"

text \<open>
  What the service is configured with: the plugin registry (an issuer plugin is its
  \<open>create_authority\<close>, which returns the certificate body, the chain and the role descriptors,
  or raises), the configured \<open>LEMUR_SECURITY_TEAM_EMAIL\<close>, and the notification template
  service, taken as a function from category and recipient to the policies: what it may
  itself persist is outside the journal.
\<close>

type_synonym issuer = "(string \<rightharpoonup> string) \<Rightarrow> error + (string \<times> string \<times> role_descr list)"

record env =
  plugins :: "string \<rightharpoonup> issuer"
  security_team_email :: "string option"
  create_default_expiration_notifications :: "string \<Rightarrow> string option \<Rightarrow> notification list"

definition log_event :: "event \<Rightarrow> state \<Rightarrow> state" where
  "log_event e s = s\<lparr>journal := journal s @ [e]\<rparr>"

subsection \<open>Collaborators outside the module\<close>

text \<open>
  Modelled from the spec: \<open>plugins.get\<close> of the plugin registry in \<open>lemur.plugins.base\<close>,
  whose code is not part of the module. The registry is keyed by plugin name (section 6); a
  lookup that finds no plugin, also the lookup of None made when \<open>pluginName\<close> is absent,
  raises.
\<close>

definition plugins_get :: "env \<Rightarrow> string option \<Rightarrow> error + issuer" where
  "plugins_get env slug =
     (case slug of
        None \<Rightarrow> Inl UnknownPlugin
      | Some n \<Rightarrow> (case plugins env n of None \<Rightarrow> Inl UnknownPlugin | Some issuer \<Rightarrow> Inr issuer))"

text \<open>
  Modelled from the spec: the identifier that the persistence layer gives a new row; the
  spec asks only that persisting establishes an identity. It is one more than every
  identifier in use.
\<close>

definition next_id :: "nat list \<Rightarrow> nat" where
  "next_id ids = Suc (fold max ids 0)"

definition id_or_zero :: "nat option \<Rightarrow> nat" where
  "id_or_zero i = (case i of None \<Rightarrow> 0 | Some n \<Rightarrow> n)"

text \<open>
  Modelled from the spec: \<open>role_service.create\<close> of \<open>lemur.roles.service\<close>, whose code is
  not part of the module. Section 4.2: a Role of the given name that exists is reused; one
  whose credential is incompatible with the supplied one surfaces as DuplicateRoleError;
  otherwise the Role is created with the supplied credential and description, and persisted.
\<close>

definition role_service_create ::
  "string \<Rightarrow> string option \<Rightarrow> string \<Rightarrow> string option \<Rightarrow> state \<Rightarrow> (error + role) \<times> state" where
  "role_service_create name password description username s =
     (case find (\<lambda>r. role_name r = name) (db_roles s) of
        Some r \<Rightarrow>
          (if role_username r = username \<and> role_password r = password then (Inr r, s)
           else (Inl DuplicateRoleError, s))
      | None \<Rightarrow>
          (let r = \<lparr>role_id = next_id (map role_id (db_roles s)), role_name = name,
                    role_username = username, role_password = password,
                    role_description = description\<rparr>
           in (Inr r, log_event (RolePersisted (role_id r)) (s\<lparr>db_roles := db_roles s @ [r]\<rparr>))))"

text \<open>
  Modelled from the spec: the constructor of \<open>lemur.certificates.models.Certificate\<close>, whose
  code is not part of the module. Section 3: a Certificate has a body and a chain; the
  attributes that the constructor is not given stay None until \<open>create\<close> assigns them.
\<close>

definition Certificate :: "string \<Rightarrow> string \<Rightarrow> certificate" where
  "Certificate body chain =
     \<lparr>cert_id = None, cert_body = body, cert_chain = chain, cert_owner = None,
      cert_description = None, cert_user = None, cert_notifications = []\<rparr>"

text \<open>
  Modelled from the spec: the constructor of \<open>lemur.authorities.models.Authority\<close>, whose
  code is not part of the module. Section 3: the Authority stores the name, owner, plugin
  name, body, description, chain and roles it is given; it is given no active flag and has
  no identifier yet.
\<close>

definition Authority ::
  "string option \<Rightarrow> string \<Rightarrow> string \<Rightarrow> string \<Rightarrow> string \<Rightarrow> string \<Rightarrow> role list \<Rightarrow> authority" where
  "Authority name owner plugin_name body description chain roles' =
     \<lparr>authority_id = None, authority_name = name, authority_owner = Some owner,
      authority_plugin_name = plugin_name, authority_body = body, authority_chain = chain,
      authority_description = Some description, authority_active = None,
      authority_roles = roles'\<rparr>"

text \<open>
  Modelled from the spec: \<open>database.get\<close> of \<open>lemur.database\<close>, whose code is not part of
  the module, by identifier. Section 6, lookup by identifier: the first row of the
  identifier, or nothing.
\<close>

definition database_get :: "state \<Rightarrow> nat \<Rightarrow> authority option" where
  "database_get s i = find (\<lambda>a. authority_id a = Some i) (db_authorities s)"

text \<open>
  Modelled from the spec: \<open>database.get\<close> with \<open>field='name'\<close>. Section 6, lookup by
  field: the first row of the name, or nothing.
\<close>

definition database_get_name :: "state \<Rightarrow> string \<Rightarrow> authority option" where
  "database_get_name s n = find (\<lambda>a. authority_name a = Some n) (db_authorities s)"

text \<open>
  Modelled from the spec: \<open>database.update\<close> of a Certificate. Section 6, update of an
  entity: an object without an identifier is inserted under a fresh one (this establishes
  its identity, section 4.3 step 4); an object with one replaces the rows of that identifier.
\<close>

definition database_update_certificate :: "certificate \<Rightarrow> state \<Rightarrow> certificate \<times> state" where
  "database_update_certificate c s =
     (case cert_id c of
        None \<Rightarrow>
          (let i = next_id (map (id_or_zero \<circ> cert_id) (db_certificates s));
               c' = c\<lparr>cert_id := Some i\<rparr>
           in (c', log_event (CertificatePersisted i) (s\<lparr>db_certificates := db_certificates s @ [c']\<rparr>)))
      | Some i \<Rightarrow>
          (c, log_event (CertificatePersisted i)
                (s\<lparr>db_certificates := map (\<lambda>x. if cert_id x = Some i then c else x) (db_certificates s)\<rparr>)))"

text \<open>
  Modelled from the spec: \<open>database.create\<close> of an Authority. Section 6, create of an
  entity, under the unique constraint on the Authority name of section 5: a name already
  in the table surfaces as DuplicateNameError; otherwise the row is inserted under a fresh
  identifier.
\<close>

definition database_create_authority :: "authority \<Rightarrow> state \<Rightarrow> (error + authority) \<times> state" where
  "database_create_authority a s =
     (if authority_name a \<noteq> None \<and> authority_name a \<in> set (map authority_name (db_authorities s))
      then (Inl DuplicateNameError, s)
      else
        (let i = next_id (map (id_or_zero \<circ> authority_id) (db_authorities s));
             a' = a\<lparr>authority_id := Some i\<rparr>
         in (Inr a', log_event (AuthorityPersisted i) (s\<lparr>db_authorities := db_authorities s @ [a']\<rparr>))))"

text \<open>
  Modelled from the spec: \<open>database.update\<close> of an Authority. Section 6, update of an
  entity: the object replaces the rows of its identifier.
\<close>

definition database_update_authority :: "authority \<Rightarrow> state \<Rightarrow> authority \<times> state" where
  "database_update_authority a s =
     (a, log_event (AuthorityUpdated (id_or_zero (authority_id a)))
           (s\<lparr>db_authorities := map (\<lambda>x. if authority_id x = authority_id a then a else x) (db_authorities s)\<rparr>))"

text \<open>
  Modelled from the spec: \<open>database.update_list\<close>, whose code is not part of the module.
  Section 4.3: the supplied roles replace the Role set of the Authority wholesale.
\<close>

definition database_update_list :: "authority \<Rightarrow> role list \<Rightarrow> authority" where
  "database_update_list a items = a\<lparr>authority_roles := items\<rparr>"

text \<open>
  Modelled from the spec: the attribute \<open>role.authority\<close>, declared in the model classes
  whose code is not part of the module. Section 3: a Role has an optional back-reference to
  its owning Authority, the Authority whose Role set holds it; roles are told apart by
  their identifier. When several Authorities list the role, the first row stands for the
  owner.
\<close>

definition role_authority :: "state \<Rightarrow> role \<Rightarrow> authority option" where
  "role_authority s r = find (\<lambda>a. role_id r \<in> set (map role_id (authority_roles a))) (db_authorities s)"

text \<open>
  Modelled from the spec: the columns of an Authority that \<open>database.filter\<close> and
  \<open>database.sort\<close> address by name (section 6: any field of the entity). A name that is
  no column raises.
\<close>

definition authority_column :: "string \<Rightarrow> (authority \<Rightarrow> string option) option" where
  "authority_column field =
     (if field = ''name'' then Some authority_name
      else if field = ''owner'' then Some authority_owner
      else if field = ''description'' then Some authority_description
      else if field = ''plugin_name'' then Some (\<lambda>a. Some (authority_plugin_name a))
      else if field = ''body'' then Some (\<lambda>a. Some (authority_body a))
      else if field = ''chain'' then Some (\<lambda>a. Some (authority_chain a))
      else None)"

text \<open>
  Modelled from the spec: the match of \<open>database.filter\<close>. Section 4.4: the field contains
  the value; a field that is not set contains nothing.
\<close>

definition column_contains :: "(authority \<Rightarrow> string option) \<Rightarrow> string \<Rightarrow> authority \<Rightarrow> bool" where
  "column_contains col v a = (case col a of None \<Rightarrow> False | Some t \<Rightarrow> sublist v t)"

text \<open>
  Modelled from the spec: \<open>database.filter\<close>, whose code is not part of the module. Section
  4.4: the terms are the field and the value, and the rows whose field contains the value
  are kept.
\<close>

definition database_filter :: "authority list \<Rightarrow> string list \<Rightarrow> error + authority list" where
  "database_filter query terms =
     (case py_index terms 0 of
        Inl e \<Rightarrow> Inl e
      | Inr field \<Rightarrow>
          (case py_index terms 1 of
             Inl e \<Rightarrow> Inl e
           | Inr v \<Rightarrow>
               (case authority_column field of
                  None \<Rightarrow> Inl (UnknownColumn field)
                | Some col \<Rightarrow> Inr (filter (column_contains col v) query))))"

text \<open>
  Modelled from the spec: \<open>database.sort\<close>, whose code is not part of the module. Section
  4.4: the rows are ordered by the field, descending for the direction \<open>desc\<close> and
  ascending otherwise.
\<close>

definition database_sort :: "authority list \<Rightarrow> string \<Rightarrow> string \<Rightarrow> error + authority list" where
  "database_sort query sort_by sort_dir =
     (if sort_by = ''id'' then
        Inr (if sort_dir = ''desc'' then rev (sort_key authority_id query)
             else sort_key authority_id query)
      else
        (case authority_column sort_by of
           None \<Rightarrow> Inl (UnknownColumn sort_by)
         | Some col \<Rightarrow>
             Inr (if sort_dir = ''desc'' then rev (sort_key col query) else sort_key col query)))"

text \<open>
  Modelled from the spec: the comparison \<open>Authority.active == terms[1]\<close>, which the
  persistence layer evaluates. Section 4.4: exact equality of the flag, taken as its literal
  text, with the filter value; a flag that is not set equals no text.
\<close>

definition active_text :: "bool option \<Rightarrow> string option" where
  "active_text v = (case v of None \<Rightarrow> None | Some b \<Rightarrow> Some (if b then ''true'' else ''false''))"

text \<open>
  Modelled from the spec: \<open>database.paginate\<close>, whose code is not part of the module.
  Section 4.4: a bounded slice for the page and the total count before pagination. Pages
  count from 1, and a page number below 1 is read as the first page.
\<close>

record page =
  items :: "authority list"
  total :: nat

definition database_paginate :: "authority list \<Rightarrow> nat \<Rightarrow> nat \<Rightarrow> page" where
  "database_paginate query pg count' =
     \<lparr>items = take count' (drop ((pg - 1) * count') query), total = length query\<rparr>"

text \<open>
  Modelled from the spec: \<open>database.session_query\<close>, whose code is not part of the module.
  Section 6: the query over all rows of the kind, in persisted order.
\<close>

definition session_query :: "state \<Rightarrow> authority list" where
  "session_query s = db_authorities s"

text \<open>
  Modelled from the spec: \<open>database.find_all\<close>, whose code is not part of the module, on
  the empty criteria that both callers pass (\<open>render\<close> after it has popped its five keys):
  every row of the query is kept.
\<close>

definition database_find_all :: "authority list \<Rightarrow> authority list" where
  "database_find_all query = query"

subsection \<open>The service functions\<close>

definition get :: "state \<Rightarrow> nat \<Rightarrow> authority option" where
  "get s authority_id' = database_get s authority_id'"

definition get_by_name :: "state \<Rightarrow> string \<Rightarrow> authority option" where
  "get_by_name s authority_name' = database_get_name s authority_name'"

definition get_all :: "state \<Rightarrow> authority list" where
  "get_all s = database_find_all (session_query s)"

text \<open>
  \<open>update\<close>: the lookup result is used without a check, so for an identifier that no
  Authority has the operation ends with an error before anything is written (the
  NotFoundError of section 7).
\<close>

definition update ::
  "nat \<Rightarrow> string option \<Rightarrow> string option \<Rightarrow> bool option \<Rightarrow> role list option \<Rightarrow> state
     \<Rightarrow> (error + authority) \<times> state" where
  "update authority_id' description owner active roles' s =
     (case get s authority_id' of
        None \<Rightarrow> (Inl NotFoundError, s)
      | Some authority0 \<Rightarrow>
          (let authority1 = (if truthy_list roles'
                             then database_update_list authority0 (case roles' of None \<Rightarrow> [] | Some rs \<Rightarrow> rs)
                             else authority0);
               authority2 = (if truthy_bool active then authority1\<lparr>authority_active := active\<rparr>
                             else authority1);
               authority3 = authority2\<lparr>authority_description := description\<rparr>;
               authority4 = authority3\<lparr>authority_owner := owner\<rparr>
           in (case database_update_authority authority4 s of (a, s') \<Rightarrow> (Inr a, s'))))"

text \<open>
  The loop of \<open>create\<close> over the role descriptors of the plugin: each role is provisioned, a
  role whose username is \<open>admin\<close> is appended to the roles of the current user, and every
  role is collected.
\<close>

fun create_roles ::
  "string option \<Rightarrow> role_descr list \<Rightarrow> role list \<Rightarrow> state \<Rightarrow> (error + role list) \<times> state" where
  "create_roles plugin_name [] role_objs s = (Inr role_objs, s)"
| "create_roles plugin_name (r # issuer_roles) role_objs s =
     (case role_service_create (descr_name r) (descr_password r)
             (py_format plugin_name @ '' auto generated role'') (descr_username r) s of
        (Inl e, s1) \<Rightarrow> (Inl e, s1)
      | (Inr role, s1) \<Rightarrow>
          (let s2 = (if role_username role = Some ''admin''
                     then s1\<lparr>current_user := (current_user s1)\<lparr>user_roles := user_roles (current_user s1) @ [role]\<rparr>\<rparr>
                     else s1)
           in create_roles plugin_name issuer_roles (role_objs @ [role]) s2))"

definition create :: "env \<Rightarrow> (string \<rightharpoonup> string) \<Rightarrow> state \<Rightarrow> (error + authority) \<times> state" where
  "create env kwargs0 s =
     (case plugins_get env (kwargs0 ''pluginName'') of
        Inl e \<Rightarrow> (Inl e, s)
      | Inr issuer \<Rightarrow>
          (let kwargs = kwargs0(''creator'' \<mapsto> user_email (current_user s)) in
           case issuer kwargs of
             Inl e \<Rightarrow> (Inl e, s)
           | Inr (cert_body', intermediate, issuer_roles) \<Rightarrow>
               (let cert0 = Certificate cert_body' intermediate;
                    s1 = log_event CertificateConstructed s
                in case kwargs ''ownerEmail'' of
                     None \<Rightarrow> (Inl (KeyError ''ownerEmail''), s1)
                   | Some owner_email \<Rightarrow>
                       (let cert = cert0\<lparr>cert_owner := Some owner_email,
                                     cert_description :=
                                       Some (''This is the ROOT certificate for the ''
                                               @ py_format (kwargs ''caName'')
                                               @ '' certificate authority''),
                                     cert_user := Some (user_email (current_user s1)),
                                     cert_notifications :=
                                       create_default_expiration_notifications env ''DEFAULT_SECURITY''
                                         (security_team_email env)\<rparr>
                        in case create_roles (kwargs ''pluginName'') issuer_roles [] s1 of
                             (Inl e, s2) \<Rightarrow> (Inl e, s2)
                           | (Inr role_objs, s2) \<Rightarrow>
                               (case kwargs ''pluginName'' of
                                  None \<Rightarrow> (Inl (KeyError ''pluginName''), s2)
                                | Some plugin_name \<Rightarrow>
                                    (case kwargs ''caDescription'' of
                                       None \<Rightarrow> (Inl (KeyError ''caDescription''), s2)
                                     | Some ca_description \<Rightarrow>
                                         (let authority0 = Authority (kwargs ''caName'') owner_email plugin_name
                                                             cert_body' ca_description intermediate role_objs;
                                              s3 = log_event AuthorityConstructed s2
                                          in case database_update_certificate cert s3 of
                                               (cert', s4) \<Rightarrow>
                                                 (case database_create_authority authority0 s4 of
                                                    (Inl e, s5) \<Rightarrow> (Inl e, s5)
                                                  | (Inr authority1, s5) \<Rightarrow>
                                                      (Inr authority1,
                                                       s5\<lparr>current_user := (current_user s5)
                                                            \<lparr>user_authorities :=
                                                               user_authorities (current_user s5) @ [authority1]\<rparr>\<rparr>)))))))))"

text \<open>
  \<open>get_authority_role\<close>: for an admin the first role of the named Authority, the lookup
  result and the role list being used without a check, so that a name that no Authority has
  and an Authority without roles end with an error; otherwise the first role of the current
  user whose Authority has the name, and None when the loop ends without one.
\<close>

definition get_authority_role :: "state \<Rightarrow> string \<Rightarrow> error + role option" where
  "get_authority_role s ca_name =
     (if is_admin (current_user s) then
        (case get_by_name s ca_name of
           None \<Rightarrow> Inl NotFoundError
         | Some authority0 \<Rightarrow>
             (case py_index (authority_roles authority0) 0 of
                Inl e \<Rightarrow> Inl e
              | Inr r \<Rightarrow> Inr (Some r)))
      else
        Inr (find (\<lambda>role. case role_authority s role of
                             None \<Rightarrow> False
                           | Some a \<Rightarrow> authority_name a = Some ca_name)
               (user_roles (current_user s))))"

text \<open>The list parameters of \<open>render\<close>: the five keys that it pops.\<close>

record list_params =
  sort_by :: "string option"
  sort_dir :: "string option"
  page_number :: nat
  page_count :: nat
  filter_expr :: "string option"

text \<open>The loop of \<open>render\<close> that collects the Authority identifiers of the user's roles.\<close>

fun authority_ids_of :: "state \<Rightarrow> role list \<Rightarrow> nat option list" where
  "authority_ids_of s [] = []"
| "authority_ids_of s (role # rest) =
     (case role_authority s role of
        None \<Rightarrow> authority_ids_of s rest
      | Some a \<Rightarrow> authority_id a # authority_ids_of s rest)"

text \<open>
  The filter step of \<open>render\<close>: \<open>if filt:\<close> passes a filter that is neither None nor
  empty, and \<open>'active' in filt\<close> looks for the text in the whole expression.
\<close>

definition render_filter :: "authority list \<Rightarrow> string option \<Rightarrow> error + authority list" where
  "render_filter query filt =
     (case filt of
        None \<Rightarrow> Inr query
      | Some f \<Rightarrow>
          (if f = [] then Inr query
           else
             (let terms = py_split CHR '';'' f in
              if sublist ''active'' f then
                (case py_index terms 1 of
                   Inl e \<Rightarrow> Inl e
                 | Inr v \<Rightarrow> Inr (filter (\<lambda>a. active_text (authority_active a) = Some v) query))
              else database_filter query terms)))"

text \<open>The visibility step of \<open>render\<close>.\<close>

definition render_visible :: "state \<Rightarrow> authority list \<Rightarrow> authority list" where
  "render_visible s query =
     (if \<not> is_admin (current_user s) then
        (let authority_ids = authority_ids_of s (user_roles (current_user s))
         in filter (\<lambda>a. authority_id a \<in> set authority_ids) query)
      else query)"

text \<open>The sort step of \<open>render\<close>: only when both a field and a direction are given.\<close>

definition render_sort :: "authority list \<Rightarrow> string option \<Rightarrow> string option \<Rightarrow> error + authority list" where
  "render_sort query sort_by' sort_dir' =
     (case (sort_by', sort_dir') of
        (Some field, Some direction) \<Rightarrow>
          (if field \<noteq> [] \<and> direction \<noteq> [] then database_sort query field direction
           else Inr query)
      | _ \<Rightarrow> Inr query)"

definition render :: "state \<Rightarrow> list_params \<Rightarrow> error + page" where
  "render s args =
     (case render_filter (session_query s) (filter_expr args) of
        Inl e \<Rightarrow> Inl e
      | Inr query1 \<Rightarrow>
          (let query2 = render_visible s query1;
               query3 = database_find_all query2
           in case render_sort query3 (sort_by args) (sort_dir args) of
                Inl e \<Rightarrow> Inl e
              | Inr query4 \<Rightarrow> Inr (database_paginate query4 (page_number args) (page_count args))))"

subsection \<open>Auxiliary predicates and example data\<close>

definition is_role_event :: "event \<Rightarrow> bool" where
  "is_role_event e = (case e of RolePersisted _ \<Rightarrow> True | _ \<Rightarrow> False)"

text \<open>Two role sets are not disjoint: some role of the first is, by identifier, in the second.\<close>

definition shares_role :: "role list \<Rightarrow> role list \<Rightarrow> bool" where
  "shares_role xs ys = (\<exists>r \<in> set xs. role_id r \<in> set (map role_id ys))"

text \<open>
  An issuer plugin that returns an admin and an operator role, one that returns no role,
  and one whose backend is down.
\<close>

definition example_descrs :: "role_descr list" where
  "example_descrs =
     [\<lparr>descr_name = ''ca1_admin'', descr_username = Some ''admin'', descr_password = Some ''pw1''\<rparr>,
      \<lparr>descr_name = ''ca1_operator'', descr_username = Some ''operator'', descr_password = Some ''pw2''\<rparr>]"

definition example_issuer :: issuer where
  "example_issuer kw = Inr (''BODY'', ''CHAIN'', example_descrs)"

definition bare_issuer :: issuer where
  "bare_issuer kw = Inr (''BODY'', ''CHAIN'', [])"

definition failing_issuer :: issuer where
  "failing_issuer kw = Inl ProvisioningError"

definition example_env :: env where
  "example_env =
     \<lparr>plugins = [''acme'' \<mapsto> example_issuer, ''bare'' \<mapsto> bare_issuer, ''down'' \<mapsto> failing_issuer],
      security_team_email = Some ''security@example.com'',
      create_default_expiration_notifications =
        (\<lambda>category recipient.
           [\<lparr>notif_category = category, notif_recipient = recipient, notif_interval = 30\<rparr>])\<rparr>"

definition example_kwargs :: "string \<rightharpoonup> string" where
  "example_kwargs =
     [''caName'' \<mapsto> ''ca1'', ''ownerEmail'' \<mapsto> ''owner@example.com'',
      ''pluginName'' \<mapsto> ''acme'', ''caDescription'' \<mapsto> ''first CA'']"

definition alice :: user where
  "alice = \<lparr>user_email = ''alice@example.com'', is_admin = False, user_roles = [],
            user_authorities = []\<rparr>"

definition empty_state :: state where
  "empty_state = \<lparr>db_authorities = [], db_roles = [], db_certificates = [],
                  current_user = alice, journal = []\<rparr>"

text \<open>The roles and the Authority that \<open>create\<close> makes of \<open>example_kwargs\<close> on the empty store.\<close>

definition admin_role :: role where
  "admin_role = \<lparr>role_id = 1, role_name = ''ca1_admin'', role_username = Some ''admin'',
                 role_password = Some ''pw1'', role_description = ''acme auto generated role''\<rparr>"

definition operator_role :: role where
  "operator_role = \<lparr>role_id = 2, role_name = ''ca1_operator'', role_username = Some ''operator'',
                    role_password = Some ''pw2'', role_description = ''acme auto generated role''\<rparr>"

definition created_ca1 :: authority where
  "created_ca1 =
     \<lparr>authority_id = Some 1, authority_name = Some ''ca1'', authority_owner = Some ''owner@example.com'',
      authority_plugin_name = ''acme'', authority_body = ''BODY'', authority_chain = ''CHAIN'',
      authority_description = Some ''first CA'', authority_active = None,
      authority_roles = [admin_role, operator_role]\<rparr>"

text \<open>A store with two Authorities, each with one role; \<open>bob\<close> holds the role of the first.\<close>

definition role1 :: role where
  "role1 = \<lparr>role_id = 1, role_name = ''ca1_operator'', role_username = Some ''operator'',
            role_password = Some ''pw1'', role_description = ''acme auto generated role''\<rparr>"

definition role2 :: role where
  "role2 = \<lparr>role_id = 2, role_name = ''ca2_operator'', role_username = Some ''operator'',
            role_password = Some ''pw2'', role_description = ''acme auto generated role''\<rparr>"

definition authority1 :: authority where
  "authority1 =
     \<lparr>authority_id = Some 1, authority_name = Some ''ca1'', authority_owner = Some ''active-team@example.com'',
      authority_plugin_name = ''acme'', authority_body = ''BODY1'', authority_chain = ''CHAIN1'',
      authority_description = Some ''first CA'', authority_active = Some True,
      authority_roles = [role1]\<rparr>"

definition authority2 :: authority where
  "authority2 =
     \<lparr>authority_id = Some 2, authority_name = Some ''ca2'', authority_owner = Some ''carol@example.com'',
      authority_plugin_name = ''acme'', authority_body = ''BODY2'', authority_chain = ''CHAIN2'',
      authority_description = Some ''second CA'', authority_active = Some False,
      authority_roles = [role2]\<rparr>"

definition bob :: user where
  "bob = \<lparr>user_email = ''bob@example.com'', is_admin = False, user_roles = [role1],
          user_authorities = []\<rparr>"

definition root :: user where
  "root = \<lparr>user_email = ''root@example.com'', is_admin = True, user_roles = [],
           user_authorities = []\<rparr>"

definition example_store :: state where
  "example_store = \<lparr>db_authorities = [authority1, authority2], db_roles = [role1, role2],
                    db_certificates = [], current_user = bob, journal = []\<rparr>"

definition all_rows :: list_params where
  "all_rows = \<lparr>sort_by = None, sort_dir = None, page_number = 1, page_count = 10,
               filter_expr = None\<rparr>"

section \<open>Properties\<close>

subsection \<open>Provisioning of roles\<close>

lemma role_service_create_result:
  assumes "role_service_create name password description username s = (Inr r, s')"
  shows "role_name r = name \<and> role_username r = username \<and> role_password r = password"
  using assms
  by (auto simp: role_service_create_def log_event_def Let_def find_Some_iff
           split: option.splits if_splits)

lemma role_service_create_frame:
  assumes "role_service_create name password description username s = (res, s')"
  shows "db_authorities s' = db_authorities s \<and> db_certificates s' = db_certificates s
         \<and> current_user s' = current_user s
         \<and> (\<exists>evs. journal s' = journal s @ evs \<and> list_all is_role_event evs)"
  using assms
  by (auto simp: role_service_create_def log_event_def Let_def is_role_event_def
           split: option.splits if_splits)

lemma create_roles_frame:
  assumes "create_roles pn ds acc s = (res, s')"
  shows "db_authorities s' = db_authorities s \<and> db_certificates s' = db_certificates s
         \<and> user_email (current_user s') = user_email (current_user s)
         \<and> is_admin (current_user s') = is_admin (current_user s)
         \<and> user_authorities (current_user s') = user_authorities (current_user s)
         \<and> (\<exists>evs. journal s' = journal s @ evs \<and> list_all is_role_event evs)"
  using assms
proof (induction ds arbitrary: acc s)
  case Nil
  then show ?case by auto
next
  case (Cons d ds)
  obtain r1 s1 where rs: "role_service_create (descr_name d) (descr_password d)
             (py_format pn @ '' auto generated role'') (descr_username d) s = (r1, s1)"
    by (cases "role_service_create (descr_name d) (descr_password d)
             (py_format pn @ '' auto generated role'') (descr_username d) s") auto
  note fr = role_service_create_frame[OF rs]
  show ?case
  proof (cases r1)
    case (Inl e)
    with Cons.prems rs fr show ?thesis by auto
  next
    case (Inr role)
    define s2 where "s2 = (if role_username role = Some ''admin''
                     then s1\<lparr>current_user := (current_user s1)\<lparr>user_roles := user_roles (current_user s1) @ [role]\<rparr>\<rparr>
                     else s1)"
    from Cons.prems rs Inr have rec: "create_roles pn ds (acc @ [role]) s2 = (res, s')"
      by (simp add: s2_def Let_def)
    from Cons.IH[OF rec] fr show ?thesis
      by (auto simp: s2_def split: if_splits)
  qed
qed

lemma create_roles_result:
  assumes "create_roles pn ds acc s = (Inr rs, s')"
  shows "\<exists>new. rs = acc @ new
         \<and> map role_name new = map descr_name ds
         \<and> map role_username new = map descr_username ds
         \<and> user_roles (current_user s') =
             user_roles (current_user s) @ filter (\<lambda>r. role_username r = Some ''admin'') new"
  using assms
proof (induction ds arbitrary: acc s)
  case Nil
  then show ?case by auto
next
  case (Cons d ds)
  obtain r1 s1 where rs: "role_service_create (descr_name d) (descr_password d)
             (py_format pn @ '' auto generated role'') (descr_username d) s = (r1, s1)"
    by (cases "role_service_create (descr_name d) (descr_password d)
             (py_format pn @ '' auto generated role'') (descr_username d) s") auto
  note fr = role_service_create_frame[OF rs]
  show ?case
  proof (cases r1)
    case (Inl e)
    with Cons.prems rs show ?thesis by auto
  next
    case (Inr role)
    define s2 where "s2 = (if role_username role = Some ''admin''
                     then s1\<lparr>current_user := (current_user s1)\<lparr>user_roles := user_roles (current_user s1) @ [role]\<rparr>\<rparr>
                     else s1)"
    from Cons.prems rs Inr have rec: "create_roles pn ds (acc @ [role]) s2 = (Inr rs, s')"
      by (simp add: s2_def Let_def)
    from Cons.IH[OF rec] obtain new where
      new: "rs = (acc @ [role]) @ new" "map role_name new = map descr_name ds"
        "map role_username new = map descr_username ds"
        "user_roles (current_user s') = user_roles (current_user s2) @ filter (\<lambda>r. role_username r = Some ''admin'') new"
      by blast
    from rs Inr have rr: "role_name role = descr_name d \<and> role_username role = descr_username d"
      using role_service_create_result by blast
    have u2: "user_roles (current_user s2) = user_roles (current_user s) @ filter (\<lambda>r. role_username r = Some ''admin'') [role]"
      using fr by (auto simp: s2_def)
    show ?thesis
      apply (rule exI[of _ "role # new"])
      using new rr u2 by auto
  qed
qed


lemma create_success_cases:
  assumes "create env kwargs s = (Inr a, s')"
  obtains issuer body chain descrs owner pn descr role_objs s2 cert' s4 s5 where
    "plugins_get env (kwargs ''pluginName'') = Inr issuer"
    "issuer (kwargs(''creator'' \<mapsto> user_email (current_user s))) = Inr (body, chain, descrs)"
    "kwargs ''ownerEmail'' = Some owner"
    "kwargs ''pluginName'' = Some pn"
    "kwargs ''caDescription'' = Some descr"
    "create_roles (kwargs ''pluginName'') descrs [] (log_event CertificateConstructed s) = (Inr role_objs, s2)"
    "database_update_certificate
       ((Certificate body chain)\<lparr>cert_owner := Some owner,
          cert_description := Some (''This is the ROOT certificate for the '' @ py_format (kwargs ''caName'')
                                         @ '' certificate authority''),
          cert_user := Some (user_email (current_user s)),
          cert_notifications := create_default_expiration_notifications env ''DEFAULT_SECURITY''
                                         (security_team_email env)\<rparr>)
       (log_event AuthorityConstructed s2) = (cert', s4)"
    "database_create_authority (Authority (kwargs ''caName'') owner pn body descr chain role_objs) s4 = (Inr a, s5)"
    "s' = s5\<lparr>current_user := (current_user s5)\<lparr>user_authorities := user_authorities (current_user s5) @ [a]\<rparr>\<rparr>"
  using assms
  unfolding create_def Let_def
  by (auto split: sum.splits option.splits prod.splits simp: log_event_def)

text \<open>What the two persistence calls at the end of \<open>create\<close> do to the state.\<close>

lemma database_update_certificate_new:
  assumes "cert_id c = None" and "database_update_certificate c s = (c', s')"
  shows "\<exists>cid. c' = c\<lparr>cert_id := Some cid\<rparr>
         \<and> db_certificates s' = db_certificates s @ [c']
         \<and> journal s' = journal s @ [CertificatePersisted cid]
         \<and> db_authorities s' = db_authorities s \<and> db_roles s' = db_roles s
         \<and> current_user s' = current_user s"
  using assms by (auto simp: database_update_certificate_def log_event_def Let_def)

lemma database_create_authority_new:
  assumes "database_create_authority a0 s = (Inr a, s')"
  shows "\<exists>aid. a = a0\<lparr>authority_id := Some aid\<rparr>
         \<and> db_authorities s' = db_authorities s @ [a]
         \<and> journal s' = journal s @ [AuthorityPersisted aid]
         \<and> db_certificates s' = db_certificates s \<and> db_roles s' = db_roles s
         \<and> current_user s' = current_user s"
  using assms by (auto simp: database_create_authority_def log_event_def Let_def split: if_splits)

text \<open>The definitions that evaluate \<open>create\<close> on the example data.\<close>

lemmas create_eval_defs =
  create_def plugins_get_def Certificate_def Authority_def log_event_def
  database_update_certificate_def database_create_authority_def next_id_def id_or_zero_def
  py_format_def role_service_create_def Let_def
  example_env_def example_kwargs_def empty_state_def alice_def example_issuer_def bare_issuer_def
  example_descrs_def admin_role_def operator_role_def created_ca1_def

subsection \<open>Failure of the issuer plugin\<close>

text \<open>
  Claim C1. When the \<open>create_authority\<close> call of the issuer plugin raises, \<open>create\<close> fails
  with that error and the state it leaves is the state it was given: no Certificate, Role
  or Authority has been persisted, the journal is unchanged, and the current user has been
  granted nothing. Every persistence operation of \<open>create\<close> comes after the plugin call.
\<close>

theorem create_plugin_failure:
  assumes "plugins_get env (kwargs ''pluginName'') = Inr issuer"
      and "issuer (kwargs(''creator'' \<mapsto> user_email (current_user s))) = Inl e"
  shows "create env kwargs s = (Inl e, s)"
  using assms by (simp add: create_def)

theorem create_plugin_failure_witness:
  "plugins_get example_env ((example_kwargs(''pluginName'' \<mapsto> ''down'')) ''pluginName'') = Inr failing_issuer
   \<and> failing_issuer ((example_kwargs(''pluginName'' \<mapsto> ''down''))
                       (''creator'' \<mapsto> user_email (current_user example_store))) = Inl ProvisioningError
   \<and> create example_env (example_kwargs(''pluginName'' \<mapsto> ''down'')) example_store
       = (Inl ProvisioningError, example_store)"
proof -
  have h1: "plugins_get example_env ((example_kwargs(''pluginName'' \<mapsto> ''down'')) ''pluginName'')
              = Inr failing_issuer"
    by (simp add: plugins_get_def example_env_def)
  have h2: "failing_issuer ((example_kwargs(''pluginName'' \<mapsto> ''down''))
                       (''creator'' \<mapsto> user_email (current_user example_store))) = Inl ProvisioningError"
    by (simp add: failing_issuer_def)
  from create_plugin_failure [OF h1 h2] h1 h2 show ?thesis by blast
qed

subsection \<open>The order of construction and persistence in a successful create\<close>




subsection \<open>The grant of admin roles to the creator\<close>

text \<open>
  Claim C4. In a successful \<open>create\<close> the roles of the resulting Authority answer the role
  descriptors of the plugin one for one, with the names and usernames of the descriptors, and
  the roles held by the current user afterwards are the roles held before followed by
  exactly those resulting roles whose username is \<open>admin\<close>: a role of any other username
  is not granted.
\<close>

theorem create_admin_grant:
  assumes "plugins_get env (kwargs ''pluginName'') = Inr issuer"
      and "issuer (kwargs(''creator'' \<mapsto> user_email (current_user s))) = Inr (body, chain, descrs)"
      and "create env kwargs s = (Inr a, s')"
  shows "map role_name (authority_roles a) = map descr_name descrs
       \<and> map role_username (authority_roles a) = map descr_username descrs
       \<and> user_roles (current_user s') =
           user_roles (current_user s) @ filter (\<lambda>r. role_username r = Some ''admin'') (authority_roles a)"
proof -
  from assms(3) obtain issuer' body' chain' descrs' owner pn descr role_objs s2 cert' s4 s5 where
    c: "plugins_get env (kwargs ''pluginName'') = Inr issuer'"
       "issuer' (kwargs(''creator'' \<mapsto> user_email (current_user s))) = Inr (body', chain', descrs')"
       "create_roles (kwargs ''pluginName'') descrs' [] (log_event CertificateConstructed s) = (Inr role_objs, s2)"
       "database_update_certificate
       ((Certificate body' chain')\<lparr>cert_owner := Some owner,
          cert_description := Some (''This is the ROOT certificate for the '' @ py_format (kwargs ''caName'')
                                         @ '' certificate authority''),
          cert_user := Some (user_email (current_user s)),
          cert_notifications := create_default_expiration_notifications env ''DEFAULT_SECURITY''
                                         (security_team_email env)\<rparr>)
       (log_event AuthorityConstructed s2) = (cert', s4)"
       "database_create_authority (Authority (kwargs ''caName'') owner pn body' descr chain' role_objs) s4 = (Inr a, s5)"
       "s' = s5\<lparr>current_user := (current_user s5)\<lparr>user_authorities := user_authorities (current_user s5) @ [a]\<rparr>\<rparr>"
    by (rule create_success_cases)
  from c(1,2) assms(1,2) have eq: "descrs' = descrs" by auto
  from create_roles_result[OF c(3)] have
    r: "map role_name role_objs = map descr_name descrs"
       "map role_username role_objs = map descr_username descrs"
       "user_roles (current_user s2) =
          user_roles (current_user s) @ filter (\<lambda>r. role_username r = Some ''admin'') role_objs"
    using eq by (auto simp: log_event_def)
  from database_update_certificate_new[OF _ c(4)] have u4: "current_user s4 = current_user s2"
    by (auto simp: Certificate_def log_event_def)
  from database_create_authority_new[OF c(5)] have
    a: "authority_roles a = role_objs" "current_user s5 = current_user s4"
    by (auto simp: Authority_def)
  show ?thesis using r a u4 c(6) by simp
qed

theorem create_admin_grant_witness:
  "plugins_get example_env (example_kwargs ''pluginName'') = Inr example_issuer
   \<and> example_issuer (example_kwargs(''creator'' \<mapsto> user_email (current_user empty_state)))
       = Inr (''BODY'', ''CHAIN'', example_descrs)
   \<and> fst (create example_env example_kwargs empty_state) = Inr created_ca1
   \<and> map role_username (authority_roles created_ca1) = [Some ''admin'', Some ''operator'']
   \<and> user_roles (current_user (snd (create example_env example_kwargs empty_state))) = [admin_role]"
proof -
  have h1: "plugins_get example_env (example_kwargs ''pluginName'') = Inr example_issuer"
    by (simp add: plugins_get_def example_env_def example_kwargs_def)
  have h2: "example_issuer (example_kwargs(''creator'' \<mapsto> user_email (current_user empty_state)))
              = Inr (''BODY'', ''CHAIN'', example_descrs)"
    by (simp add: example_issuer_def)
  have h3: "fst (create example_env example_kwargs empty_state) = Inr created_ca1"
    by (simp add: create_eval_defs)
  have h4: "create example_env example_kwargs empty_state
              = (Inr created_ca1, snd (create example_env example_kwargs empty_state))"
    using h3 by (simp add: prod_eq_iff)
  note g = create_admin_grant [OF h1 h2 h4]
  from g have u: "map role_username (authority_roles created_ca1) = [Some ''admin'', Some ''operator'']"
    by (simp add: example_descrs_def)
  from g have r: "user_roles (current_user (snd (create example_env example_kwargs empty_state)))
                    = user_roles (current_user empty_state)
                        @ filter (\<lambda>r. role_username r = Some ''admin'') (authority_roles created_ca1)"
    by blast
  have "user_roles (current_user (snd (create example_env example_kwargs empty_state))) = [admin_role]"
    unfolding r by (simp add: empty_state_def alice_def created_ca1_def admin_role_def operator_role_def)
  with h1 h2 h3 u show ?thesis by blast
qed

subsection \<open>Missing parameters of create\<close>




subsection \<open>Partial update\<close>

lemma find_map_replace:
  assumes "P a" and "\<exists>x \<in> set xs. P x"
  shows "find P (map (\<lambda>x. if P x then a else x) xs) = Some a"
  using assms by (induction xs) auto

lemma update_found:
  assumes "get s i = Some a"
  shows "\<exists>a' s'. update i d ow act rs s = (Inr a', s') \<and> get s' i = Some a'
           \<and> authority_active a' = (if truthy_bool act then Some True else authority_active a)
           \<and> authority_roles a' = (case rs of Some (r # rest) \<Rightarrow> r # rest | _ \<Rightarrow> authority_roles a)"
proof -
  from assms have ia: "authority_id a = Some i" and mem: "a \<in> set (db_authorities s)"
    by (auto simp: get_def database_get_def find_Some_iff)
  obtain a' s' where u: "update i d ow act rs s = (Inr a', s')"
    using assms by (auto simp: update_def Let_def database_update_authority_def)
  from u assms have a': "a' = (if truthy_bool act
                     then (if truthy_list rs then database_update_list a (case rs of None \<Rightarrow> [] | Some xs \<Rightarrow> xs) else a)
                            \<lparr>authority_active := act\<rparr>
                     else (if truthy_list rs then database_update_list a (case rs of None \<Rightarrow> [] | Some xs \<Rightarrow> xs) else a))
                    \<lparr>authority_description := d, authority_owner := ow\<rparr>"
    by (auto simp: update_def Let_def database_update_authority_def split: prod.splits)
  have id': "authority_id a' = Some i"
    unfolding a' by (simp add: database_update_list_def ia)
  from u assms have s': "db_authorities s' = map (\<lambda>x. if authority_id x = Some i then a' else x) (db_authorities s)"
    by (auto simp: update_def Let_def database_update_authority_def log_event_def id'[symmetric] split: prod.splits)
  have g: "get s' i = Some a'"
    unfolding get_def database_get_def s'
    using find_map_replace[of "\<lambda>x. authority_id x = Some i" a' "db_authorities s"] id' ia mem
    by auto
  have act': "authority_active a' = (if truthy_bool act then Some True else authority_active a)"
    unfolding a' by (cases act) (auto simp: database_update_list_def truthy_bool_def)
  have r': "authority_roles a' = (case rs of Some (r # rest) \<Rightarrow> r # rest | _ \<Rightarrow> authority_roles a)"
    unfolding a' by (auto simp: database_update_list_def truthy_list_def split: option.splits list.splits)
  from u g act' r' show ?thesis by blast
qed

lemmas store_eval_defs =
  example_store_def authority1_def authority2_def role1_def role2_def bob_def root_def all_rows_def

text \<open>
  Claim C6. For every existing Authority, \<open>update\<close> succeeds and the Authority it returns is
  the one then stored under the identifier; with a falsy \<open>active\<close> (None or False) its active
  flag is the flag it had before, and with a truthy \<open>active\<close> the flag is set to it.
\<close>

theorem update_active:
  assumes "get s i = Some a"
  shows "\<exists>a' s'. update i d ow act rs s = (Inr a', s') \<and> get s' i = Some a'
           \<and> authority_active a' = (if truthy_bool act then Some True else authority_active a)"
  using update_found [OF assms, of d ow act rs] by blast

theorem update_active_witness:
  "get example_store 1 = Some authority1
   \<and> authority_active authority1 = Some True
   \<and> (\<exists>a' s'. update 1 (Some ''first CA'') (Some ''carol@example.com'') (Some False) None example_store
                  = (Inr a', s')
         \<and> get s' 1 = Some a' \<and> authority_active a' = Some True)"
proof -
  have h: "get example_store 1 = Some authority1"
    by (simp add: get_def database_get_def store_eval_defs)
  have a: "authority_active authority1 = Some True"
    by (simp add: authority1_def)
  from update_active [OF h, of "Some ''first CA''" "Some ''carol@example.com''" "Some False" None]
  have "\<exists>a' s'. update 1 (Some ''first CA'') (Some ''carol@example.com'') (Some False) None example_store
                  = (Inr a', s')
         \<and> get s' 1 = Some a' \<and> authority_active a' = Some True"
    by (simp add: truthy_bool_def a)
  with h a show ?thesis by blast
qed

text \<open>
  Claim C7. For every existing Authority, \<open>update\<close> with a non-empty \<open>roles\<close> sequence leaves
  the Authority with exactly the supplied roles, whatever roles it had, and \<open>update\<close> with an
  empty or absent \<open>roles\<close> leaves its Role set as it was.
\<close>

theorem update_roles:
  assumes "get s i = Some a"
  shows "\<exists>a' s'. update i d ow act rs s = (Inr a', s') \<and> get s' i = Some a'
           \<and> authority_roles a' = (case rs of Some (r # rest) \<Rightarrow> r # rest | _ \<Rightarrow> authority_roles a)"
  using update_found [OF assms, of d ow act rs] by blast

theorem update_roles_witness:
  "get example_store 1 = Some authority1
   \<and> authority_roles authority1 = [role1]
   \<and> (\<exists>a' s'. update 1 None None None (Some [role2]) example_store = (Inr a', s')
         \<and> get s' 1 = Some a' \<and> authority_roles a' = [role2])
   \<and> (\<exists>a' s'. update 1 None None None (Some []) example_store = (Inr a', s')
         \<and> get s' 1 = Some a' \<and> authority_roles a' = [role1])"
proof -
  have h: "get example_store 1 = Some authority1"
    by (simp add: get_def database_get_def store_eval_defs)
  have a: "authority_roles authority1 = [role1]"
    by (simp add: authority1_def)
  from update_roles [OF h, of None None None "Some [role2]"]
  have r1: "\<exists>a' s'. update 1 None None None (Some [role2]) example_store = (Inr a', s')
         \<and> get s' 1 = Some a' \<and> authority_roles a' = [role2]"
    by simp
  from update_roles [OF h, of None None None "Some []"]
  have r2: "\<exists>a' s'. update 1 None None None (Some []) example_store = (Inr a', s')
         \<and> get s' 1 = Some a' \<and> authority_roles a' = [role1]"
    by (simp add: a)
  from h a r1 r2 show ?thesis by blast
qed

subsection \<open>Row-level visibility of render\<close>

lemma render_filter_subset:
  assumes "render_filter query filt = Inr query'"
  shows "set query' \<subseteq> set query"
  using assms
  by (auto simp: render_filter_def database_filter_def Let_def
           split: if_splits sum.splits option.splits)

lemma render_sort_mset:
  assumes "render_sort query sb sd = Inr query'"
  shows "mset query' = mset query"
  using assms
  by (auto simp: render_sort_def database_sort_def split: if_splits option.splits prod.splits)

lemma role_authority_Some:
  assumes "role_authority s r = Some b"
  shows "b \<in> set (db_authorities s) \<and> role_id r \<in> set (map role_id (authority_roles b))"
  using assms by (auto simp: role_authority_def find_Some_iff)

lemma authority_ids_of_mem:
  assumes "i \<in> set (authority_ids_of s rs)"
  shows "\<exists>r \<in> set rs. \<exists>b. role_authority s r = Some b \<and> authority_id b = i"
  using assms by (induction rs) (auto split: option.splits)

lemma render_visible_shares:
  assumes d: "distinct (map authority_id (db_authorities s))"
      and na: "\<not> is_admin (current_user s)"
      and sub: "set query \<subseteq> set (db_authorities s)"
      and a: "a \<in> set (render_visible s query)"
  shows "shares_role (user_roles (current_user s)) (authority_roles a)"
proof -
  from a na have aq: "a \<in> set query"
    and ai: "authority_id a \<in> set (authority_ids_of s (user_roles (current_user s)))"
    by (auto simp: render_visible_def Let_def)
  from authority_ids_of_mem[OF ai] obtain r b where
    r: "r \<in> set (user_roles (current_user s))" and b: "role_authority s r = Some b"
    and eq: "authority_id b = authority_id a"
    by blast
  from role_authority_Some[OF b] have bm: "b \<in> set (db_authorities s)"
    and rb: "role_id r \<in> set (map role_id (authority_roles b))" by auto
  from aq sub have am: "a \<in> set (db_authorities s)" by auto
  from d have "inj_on authority_id (set (db_authorities s))" by (simp add: distinct_map)
  with am bm eq have "a = b" by (auto dest: inj_onD)
  with r rb show ?thesis by (auto simp: shares_role_def)
qed

lemma database_paginate_items:
  "set (items (database_paginate query pg cnt)) \<subseteq> set query
   \<and> total (database_paginate query pg cnt) = length query"
  by (auto simp: database_paginate_def dest: in_set_takeD in_set_dropD)

lemma database_paginate_all:
  assumes "pg \<le> 1" and "length query \<le> cnt"
  shows "items (database_paginate query pg cnt) = query"
  using assms by (simp add: database_paginate_def)

lemma render_cases:
  assumes "render s args = Inr p"
  obtains q1 q4 where
    "render_filter (session_query s) (filter_expr args) = Inr q1"
    "render_sort (database_find_all (render_visible s q1)) (sort_by args) (sort_dir args) = Inr q4"
    "p = database_paginate q4 (page_number args) (page_count args)"
  using assms by (auto simp: render_def Let_def split: sum.splits)

lemmas render_eval_defs =
  render_def render_filter_def render_visible_def render_sort_def database_filter_def
  database_paginate_def database_find_all_def session_query_def authority_column_def
  column_contains_def active_text_def py_index_def
  role_authority_def sublist_code(3) Let_def

text \<open>
  Claim C2. Over a store whose Authority identifiers are distinct, whatever the list
  parameters: every Authority that \<open>render\<close> returns to a non-admin user has a role among
  the roles the user holds; and for an admin user the rows handed to pagination are all the
  rows that match the filter, whatever their roles: the total is their number, and a page
  that is large enough holds each of them.
\<close>

theorem render_visibility:
  assumes "distinct (map authority_id (db_authorities s))" and "render s args = Inr p"
  shows "(\<not> is_admin (current_user s) \<longrightarrow>
            (\<forall>a \<in> set (items p). shares_role (user_roles (current_user s)) (authority_roles a)))
       \<and> (is_admin (current_user s) \<longrightarrow>
            (\<exists>q. render_filter (session_query s) (filter_expr args) = Inr q
                 \<and> total p = length q \<and> set (items p) \<subseteq> set q
                 \<and> (page_number args \<le> 1 \<and> length q \<le> page_count args \<longrightarrow> mset (items p) = mset q)))"
proof -
  from assms(2) obtain q1 q4 where
    f: "render_filter (session_query s) (filter_expr args) = Inr q1" and
    so: "render_sort (database_find_all (render_visible s q1)) (sort_by args) (sort_dir args) = Inr q4" and
    p: "p = database_paginate q4 (page_number args) (page_count args)"
    by (rule render_cases)
  from render_sort_mset[OF so] have m4: "mset q4 = mset (render_visible s q1)"
    by (simp add: database_find_all_def)
  then have s4: "set q4 = set (render_visible s q1)" by (metis set_mset_mset)
  from m4 have l4: "length q4 = length (render_visible s q1)" by (metis size_mset)
  from render_filter_subset[OF f] have sub: "set q1 \<subseteq> set (db_authorities s)"
    by (simp add: session_query_def)
  have ip: "set (items p) \<subseteq> set q4" and tp: "total p = length q4"
    unfolding p using database_paginate_items by auto
  have nonadmin: "\<not> is_admin (current_user s) \<longrightarrow>
            (\<forall>a \<in> set (items p). shares_role (user_roles (current_user s)) (authority_roles a))"
    using ip s4 render_visible_shares[OF assms(1) _ sub] by blast
  have admin: "is_admin (current_user s) \<longrightarrow>
            (\<exists>q. render_filter (session_query s) (filter_expr args) = Inr q
                 \<and> total p = length q \<and> set (items p) \<subseteq> set q
                 \<and> (page_number args \<le> 1 \<and> length q \<le> page_count args \<longrightarrow> mset (items p) = mset q))"
  proof
    assume ad: "is_admin (current_user s)"
    then have v: "render_visible s q1 = q1" by (simp add: render_visible_def)
    have "page_number args \<le> 1 \<and> length q1 \<le> page_count args \<longrightarrow> mset (items p) = mset q1"
      using database_paginate_all[of "page_number args" q4 "page_count args"] l4 m4 v p by auto
    with f tp l4 v ip s4 show "\<exists>q. render_filter (session_query s) (filter_expr args) = Inr q
                 \<and> total p = length q \<and> set (items p) \<subseteq> set q
                 \<and> (page_number args \<le> 1 \<and> length q \<le> page_count args \<longrightarrow> mset (items p) = mset q)"
      by auto
  qed
  from nonadmin admin show ?thesis by blast
qed

theorem render_visibility_witness:
  "render example_store all_rows = Inr \<lparr>items = [authority1], total = 1\<rparr>
   \<and> shares_role (user_roles (current_user example_store)) (authority_roles authority1)
   \<and> render (example_store\<lparr>current_user := root\<rparr>) all_rows
       = Inr \<lparr>items = [authority1, authority2], total = 2\<rparr>
   \<and> mset (items \<lparr>items = [authority1, authority2], total = 2\<rparr>) = mset (db_authorities example_store)"
proof -
  have d: "distinct (map authority_id (db_authorities example_store))"
    by (simp add: store_eval_defs)
  have d': "distinct (map authority_id (db_authorities (example_store\<lparr>current_user := root\<rparr>)))"
    using d by simp
  have r1: "render example_store all_rows = Inr \<lparr>items = [authority1], total = 1\<rparr>"
    by (simp add: render_eval_defs store_eval_defs)
  have r2: "render (example_store\<lparr>current_user := root\<rparr>) all_rows
              = Inr \<lparr>items = [authority1, authority2], total = 2\<rparr>"
    by (simp add: render_eval_defs store_eval_defs)
  have na: "\<not> is_admin (current_user example_store)"
    by (simp add: store_eval_defs)
  have ad: "is_admin (current_user (example_store\<lparr>current_user := root\<rparr>))"
    by (simp add: store_eval_defs)
  from render_visibility [OF d r1] na
  have s1: "shares_role (user_roles (current_user example_store)) (authority_roles authority1)"
    by simp
  have f: "render_filter (session_query (example_store\<lparr>current_user := root\<rparr>)) (filter_expr all_rows)
             = Inr (db_authorities example_store)"
    by (simp add: render_filter_def session_query_def all_rows_def)
  have pg: "page_number all_rows \<le> 1 \<and> length (db_authorities example_store) \<le> page_count all_rows"
    by (simp add: store_eval_defs)
  from render_visibility [OF d' r2] ad f pg
  have s2: "mset (items \<lparr>items = [authority1, authority2], total = 2\<rparr>) = mset (db_authorities example_store)"
    by auto
  from r1 s1 r2 s2 show ?thesis by blast
qed

text \<open>
  The hypothesis on the store is an invariant of the service: the identifiers of the
  Authorities stay distinct under \<open>create\<close> and under \<open>update\<close>.
\<close>

lemma next_id_fresh:
  assumes "x \<in> set ids"
  shows "x < next_id ids"
proof -
  have "fold max ids 0 = Max (set (0 # ids))" by (rule Max.set_eq_fold [symmetric])
  moreover have "x \<le> Max (set (0 # ids))" using assms by (intro Max_ge) auto
  ultimately show ?thesis by (simp add: next_id_def)
qed

lemma database_create_authority_distinct:
  assumes "distinct (map authority_id (db_authorities s))"
      and "database_create_authority a s = (res, s')"
  shows "distinct (map authority_id (db_authorities s'))"
proof (cases res)
  case (Inl e)
  with assms show ?thesis
    by (auto simp: database_create_authority_def Let_def split: if_splits)
next
  case (Inr a')
  let ?n = "next_id (map (id_or_zero \<circ> authority_id) (db_authorities s))"
  have "Some ?n \<notin> set (map authority_id (db_authorities s))"
  proof
    assume "Some ?n \<in> set (map authority_id (db_authorities s))"
    then obtain b where b: "b \<in> set (db_authorities s)" "authority_id b = Some ?n" by auto
    then have "?n \<in> set (map (id_or_zero \<circ> authority_id) (db_authorities s))"
      by (force simp: id_or_zero_def)
    from next_id_fresh[OF this] show False by simp
  qed
  with assms Inr show ?thesis
    by (auto simp: database_create_authority_def Let_def log_event_def split: if_splits)
qed

lemma update_distinct:
  assumes "distinct (map authority_id (db_authorities s))"
      and "update i d ow act rs s = (res, s')"
  shows "distinct (map authority_id (db_authorities s'))"
proof (cases "get s i")
  case None
  with assms show ?thesis by (simp add: update_def)
next
  case (Some a)
  from update_found [OF Some, of d ow act rs] assms(2) obtain a' where
    a': "res = Inr a'" "get s' i = Some a'" by auto
  from Some have ia: "authority_id a = Some i"
    by (auto simp: get_def database_get_def find_Some_iff)
  have "map authority_id (db_authorities s') = map authority_id (db_authorities s)"
    using assms(2) Some ia
    by (auto simp: update_def Let_def database_update_authority_def log_event_def
          database_update_list_def)
  with assms(1) show ?thesis by simp
qed

lemma create_distinct:
  assumes "distinct (map authority_id (db_authorities s))"
      and "create env kwargs s = (res, s')"
  shows "distinct (map authority_id (db_authorities s'))"
proof -
  have roles: "\<And>pn ds st r st'. create_roles pn ds [] st = (r, st') \<Longrightarrow>
                 db_authorities st' = db_authorities st"
    using create_roles_frame by blast
  have cert: "\<And>c st c' st'. database_update_certificate c st = (c', st') \<Longrightarrow>
                 db_authorities st' = db_authorities st"
    by (auto simp: database_update_certificate_def log_event_def Let_def split: option.splits)
  show ?thesis
    using assms
    unfolding create_def Let_def
    by (auto split: sum.splits option.splits prod.splits
             simp: log_event_def
             dest!: roles cert
             dest: database_create_authority_distinct[rotated])
qed

subsection \<open>The filter of render\<close>

text \<open>
  Claim C5, at the failing input. The source tests \<open>'active' in filt\<close> on the whole filter
  expression, not on its field. For an admin user and the filter \<open>owner;active\<close>, \<open>render\<close>
  compares the active flag with the text \<open>active\<close> and returns no row, although the owner
  of the first Authority contains \<open>active\<close> and the contains policy on the owner field
  returns it. The filters \<open>owner;carol\<close> and \<open>active;true\<close> behave as the claim says.
\<close>

theorem render_active_substring:
  "render (example_store\<lparr>current_user := root\<rparr>) (all_rows\<lparr>filter_expr := Some ''owner;active''\<rparr>)
     = Inr \<lparr>items = [], total = 0\<rparr>
   \<and> database_filter [authority1, authority2] [''owner'', ''active''] = Inr [authority1]
   \<and> render (example_store\<lparr>current_user := root\<rparr>) (all_rows\<lparr>filter_expr := Some ''owner;carol''\<rparr>)
     = Inr \<lparr>items = [authority2], total = 1\<rparr>
   \<and> render (example_store\<lparr>current_user := root\<rparr>) (all_rows\<lparr>filter_expr := Some ''active;true''\<rparr>)
     = Inr \<lparr>items = [authority1], total = 1\<rparr>"
  by (simp add: render_eval_defs store_eval_defs)

subsection \<open>The role of an Authority for the current user\<close>

text \<open>
  Claim C9, at the failing input. For an admin user and a name that no Authority has, the
  lookup finds nothing and \<open>get_authority_role\<close> raises at \<open>authority.roles\<close>; it does
  not return None. The branch for a user who is not an admin returns None there.
\<close>

theorem get_authority_role_missing:
  "is_admin (current_user (example_store\<lparr>current_user := root\<rparr>))
   \<and> get_by_name (example_store\<lparr>current_user := root\<rparr>) ''ca9'' = None
   \<and> get_authority_role (example_store\<lparr>current_user := root\<rparr>) ''ca9'' = Inl NotFoundError
   \<and> get_authority_role example_store ''ca9'' = Inr None"
  by (simp add: get_authority_role_def get_by_name_def database_get_name_def role_authority_def
        store_eval_defs)

text \<open>
  The other half of the claim holds: for an admin user, an Authority of the name with at
  least one role gives its first role.
\<close>

lemma get_authority_role_admin_first:
  assumes "is_admin (current_user s)" and "get_by_name s ca_name = Some a"
      and "authority_roles a = r # rest"
  shows "get_authority_role s ca_name = Inr (Some r) \<and> authority_name a = Some ca_name"
proof -
  have "authority_name a = Some ca_name"
    using assms(2) by (auto simp: get_by_name_def database_get_name_def find_Some_iff)
  moreover have "get_authority_role s ca_name = Inr (Some r)"
    using assms by (simp add: get_authority_role_def py_index_def)
  ultimately show ?thesis by simp
qed

subsection \<open>Listing without a visibility restriction\<close>

text \<open>
  Claim C10. \<open>get_all\<close> returns every persisted Authority whoever the current user is: over
  the same store, the result for two acting identities is the same, and it is the whole
  table of Authorities.
\<close>

theorem get_all_identity_independent:
  "get_all (s\<lparr>current_user := u1\<rparr>) = get_all (s\<lparr>current_user := u2\<rparr>)
   \<and> get_all (s\<lparr>current_user := u1\<rparr>) = db_authorities s"
  by (simp add: get_all_def database_find_all_def session_query_def)

end
